theory Spec2Isabelle
  imports Main "HOL-Library.Word"
begin

section \<open>The realtime socket of the Swift client (class \<open>Socket\<close>)\<close>

text \<open>
  The class \<open>Socket\<close> multiplexes asynchronous requests over one web socket. This theory
  embeds its stored properties as a record, every method as a function that takes the
  socket and returns the updated one, and everything a method does to the outside world
  (a promise completed, a handler called, a line logged, a frame handed to the socket
  adapter) as an entry appended to the field \<open>effects\<close>. A Swift runtime trap (a failed
  forced cast \<open>as!\<close>, a failed \<open>try!\<close>) is the left summand of the result.
\<close>

subsection \<open>Wire data\<close>

type_synonym bytes = "8 word list"

text \<open>A decoded protobuf message body; the socket never looks inside one.\<close>

type_synonym body = string

text \<open>
  The \<open>oneof message\<close> of \<open>Nakama_Realtime_Envelope\<close>. Every case that \<open>Socket\<close> names
  is a constructor; \<open>OtherMessage\<close> stands for the remaining cases of the generated
  catalogue (ping, pong, the request messages, ...), by name.
\<close>

datatype payload =
    Error int string
  | ChannelMessage body
  | ChannelPresenceEvent body
  | MatchData body
  | MatchPresenceEvent body
  | MatchmakerMatched body
  | Notifications body
  | StatusPresenceEvent body
  | StreamData body
  | StreamPresenceEvent body
  | Party body
  | PartyJoinRequest body
  | PartyData body
  | PartyPresenceEvent body
  | PartyMatchmakerTicket body
  | PartyClose body
  | PartyLeader body
  | Rpc body
  | Channel body
  | ChannelMessageAck body
  | Match body
  | MatchmakerTicket body
  | Status body
  | MatchDataSend string int bytes "body list"
  | PartyDataSend string int bytes
  | OtherMessage string body

record envelope =
  cid :: string
  message :: "payload option"

text \<open>
  What the generated protobuf code and Foundation do is not part of the class; the
  functions are taken as parameters: \<open>env.serializedData()\<close> (throws),
  \<open>Nakama_Realtime_Envelope(serializedData:)\<close> (throws), \<open>response.jsonString()\<close>
  (throws) and \<open>String.data(using: .utf8)\<close> (optional).
\<close>

record codec =
  serializedData :: "envelope \<Rightarrow> string + bytes"
  decodeEnvelope :: "bytes \<Rightarrow> string + envelope"
  jsonString :: "envelope \<Rightarrow> string option"
  utf8 :: "string \<Rightarrow> bytes option"

subsection \<open>Promises and their run-time types\<close>

text \<open>The type argument \<open>T\<close> of \<open>send<T: Message>\<close>, as the callers in the class choose it.\<close>

datatype value_type =
    Google_Protobuf_Empty
  | Nakama_Api_Rpc
  | Nakama_Realtime_Channel
  | Nakama_Realtime_ChannelMessageAck
  | Nakama_Realtime_Match
  | Nakama_Realtime_MatchmakerTicket
  | Nakama_Realtime_Status
  | Nakama_Realtime_Party
  | Nakama_Realtime_PartyMatchmakerTicket
  | Nakama_Realtime_PartyJoinRequest

text \<open>
  An \<open>EventLoopPromise<T>\<close>: \<open>promiseId\<close> is its identity (one per \<open>makePromise\<close>),
  \<open>valueType\<close> its type argument.
\<close>

record promise =
  promiseId :: nat
  valueType :: value_type

text \<open>
  The dictionary \<open>collatedPromises\<close> stores its values as \<open>Any\<close>; the receive path
  casts them back. The target of a cast is \<open>EventLoopPromise<Any>\<close> or
  \<open>EventLoopPromise<T>\<close> for a message type. Swift's generic structs are invariant, so
  the conditional cast \<open>as?\<close> gives the promise exactly when the type arguments are
  equal, and never for \<open>EventLoopPromise<Any>\<close> (no promise is made of \<open>Any\<close>).
\<close>

datatype cast_target = EventLoopPromise_Any | EventLoopPromise value_type

fun cast_promise :: "promise \<Rightarrow> cast_target \<Rightarrow> promise option" where
  "cast_promise p EventLoopPromise_Any = None"
| "cast_promise p (EventLoopPromise t) = (if valueType p = t then Some p else None)"

subsection \<open>Effects\<close>

datatype swift_error =
    NakamaRealtimeError_error int string
  | NakamaRealtimeError_text string
  | DecodingError string
  | EncodingError string
  | AdapterError string

datatype completion = Succeed body | SucceedEmpty | Fail swift_error

datatype handler =
    OnConnect | OnDisconnect | OnError
  | OnChannelMessage | OnChannelPresence | OnMatchmakerMatched | OnMatchData
  | OnMatchPresence | OnNotifications | OnStatusPresence | OnStreamPresence
  | OnStreamData | OnPartyReceived | OnPartyClosed | OnPartyData | OnPartyJoin
  | OnPartyPresence | OnPartyMatchmakerTicket | OnPartyLeader

datatype argument = NoArgument | ErrorArgument swift_error | BodyArgument body

record url_components =
  scheme :: string
  url_host :: string
  url_port :: int
  path :: string
  queryItems :: "(string \<times> string) list"

datatype effect =
    Complete promise completion
  | Invoke handler argument
  | LogError string
  | AdapterConnect url_components
  | AdapterDisconnect
  | AdapterSend bytes

datatype trap = ForcedCastFailed | ForcedTryFailed

subsection \<open>The socket\<close>

text \<open>
  \<open>handlerSet h\<close> says that the optional handler \<open>h\<close> is not nil, \<open>logger\<close> that a
  logger was given (one that writes lines of level error); \<open>nextPromise\<close> numbers the
  promises the event loop makes.
\<close>

record socket =
  host :: string
  port :: int
  ssl :: bool
  logger :: bool
  handlerSet :: "handler \<Rightarrow> bool"
  collationCounter :: "64 word"
  collatedPromises :: "string \<rightharpoonup> promise"
  nextPromise :: nat
  effects :: "effect list"

record session =
  token :: string

definition emit :: "effect \<Rightarrow> socket \<Rightarrow> socket" where
  "emit e s = s\<lparr>effects := effects s @ [e]\<rparr>"

text \<open>\<open>self.onX?(argument)\<close>: the handler runs when it is set.\<close>

definition invoke :: "handler \<Rightarrow> argument \<Rightarrow> socket \<Rightarrow> socket" where
  "invoke h a s = (if handlerSet s h then emit (Invoke h a) s else s)"

text \<open>\<open>self.logger?.error(text)\<close>: the text is built only when there is a logger.\<close>

definition logError :: "string \<Rightarrow> socket \<Rightarrow> socket" where
  "logError text s = (if logger s then emit (LogError text) s else s)"

text \<open>
  \<open>self.logger?.error("... \(try! response.jsonString())")\<close>: with a logger, the
  interpolation renders the envelope as JSON and traps when that throws.
\<close>

definition logErrorJson :: "codec \<Rightarrow> string \<Rightarrow> envelope \<Rightarrow> socket \<Rightarrow> trap + socket" where
  "logErrorJson c prefix response s =
     (if logger s then
        (case jsonString c response of
           None \<Rightarrow> Inl ForcedTryFailed
         | Some json \<Rightarrow> Inr (emit (LogError (prefix @ json)) s))
      else Inr s)"

text \<open>\<open>let promise = collatedPromise as! EventLoopPromise<T>; promise.succeed(value)\<close>\<close>

definition succeedAs :: "value_type \<Rightarrow> promise \<Rightarrow> body \<Rightarrow> socket \<Rightarrow> trap + socket" where
  "succeedAs t collatedPromise v s =
     (case cast_promise collatedPromise (EventLoopPromise t) of
        None \<Rightarrow> Inl ForcedCastFailed
      | Some promise \<Rightarrow> Inr (emit (Complete promise (Succeed v)) s))"

subsection \<open>\<open>Socket.init\<close>\<close>

definition Socket_init :: "string \<Rightarrow> int \<Rightarrow> bool \<Rightarrow> bool \<Rightarrow> socket" where
  "Socket_init h p tls lg =
     \<lparr>host = h, port = p, ssl = tls, logger = lg, handlerSet = (\<lambda>_. False),
      collationCounter = 0, collatedPromises = Map.empty, nextPromise = 0, effects = []\<rparr>"

subsection \<open>\<open>Socket.onReceivedData\<close>\<close>

text \<open>The branch for an envelope without collation id: the push handlers.\<close>

fun dispatchUncollated :: "codec \<Rightarrow> envelope \<Rightarrow> payload option \<Rightarrow> socket \<Rightarrow> trap + socket" where
  "dispatchUncollated c r (Some (Error code text)) s =
     Inr (invoke OnError (ErrorArgument (NakamaRealtimeError_error code text)) s)"
| "dispatchUncollated c r (Some (ChannelMessage b)) s = Inr (invoke OnChannelMessage (BodyArgument b) s)"
| "dispatchUncollated c r (Some (ChannelPresenceEvent b)) s = Inr (invoke OnChannelPresence (BodyArgument b) s)"
| "dispatchUncollated c r (Some (MatchData b)) s = Inr (invoke OnMatchData (BodyArgument b) s)"
| "dispatchUncollated c r (Some (MatchPresenceEvent b)) s = Inr (invoke OnMatchPresence (BodyArgument b) s)"
| "dispatchUncollated c r (Some (MatchmakerMatched b)) s = Inr (invoke OnMatchmakerMatched (BodyArgument b) s)"
| "dispatchUncollated c r (Some (Notifications b)) s = Inr (invoke OnNotifications (BodyArgument b) s)"
| "dispatchUncollated c r (Some (StatusPresenceEvent b)) s = Inr (invoke OnStatusPresence (BodyArgument b) s)"
| "dispatchUncollated c r (Some (StreamData b)) s = Inr (invoke OnStreamData (BodyArgument b) s)"
| "dispatchUncollated c r (Some (StreamPresenceEvent b)) s = Inr (invoke OnStreamPresence (BodyArgument b) s)"
| "dispatchUncollated c r (Some (Party b)) s = Inr (invoke OnPartyReceived (BodyArgument b) s)"
| "dispatchUncollated c r (Some (PartyJoinRequest b)) s = Inr (invoke OnPartyJoin (BodyArgument b) s)"
| "dispatchUncollated c r (Some (PartyData b)) s = Inr (invoke OnPartyData (BodyArgument b) s)"
| "dispatchUncollated c r (Some (PartyPresenceEvent b)) s = Inr (invoke OnPartyPresence (BodyArgument b) s)"
| "dispatchUncollated c r (Some (PartyMatchmakerTicket b)) s = Inr (invoke OnPartyMatchmakerTicket (BodyArgument b) s)"
| "dispatchUncollated c r (Some (PartyClose b)) s = Inr (invoke OnPartyClosed (BodyArgument b) s)"
| "dispatchUncollated c r (Some (PartyLeader b)) s = Inr (invoke OnPartyLeader (BodyArgument b) s)"
| "dispatchUncollated c r _ s =
     logErrorJson c ''Unrecognised incoming uncollated message from server: '' r s"

text \<open>
  The branch for an envelope with a collation id whose promise was found. The switch
  is on the kind of the response; the dictionary is not written.
\<close>

fun resolveCollated :: "codec \<Rightarrow> envelope \<Rightarrow> promise \<Rightarrow> payload option \<Rightarrow> socket \<Rightarrow> trap + socket" where
  "resolveCollated c r collatedPromise (Some (Error code text)) s =
     (case cast_promise collatedPromise EventLoopPromise_Any of
        Some promise \<Rightarrow>
          Inr (emit (Complete promise (Fail (NakamaRealtimeError_error code text))) s)
      | None \<Rightarrow>
          (case cast_promise collatedPromise (EventLoopPromise Google_Protobuf_Empty) of
             Some promise \<Rightarrow>
               Inr (emit (Complete promise (Fail (NakamaRealtimeError_error code text))) s)
           | None \<Rightarrow> Inr s))"
| "resolveCollated c r collatedPromise (Some (Rpc v)) s = succeedAs Nakama_Api_Rpc collatedPromise v s"
| "resolveCollated c r collatedPromise (Some (Channel v)) s = succeedAs Nakama_Realtime_Channel collatedPromise v s"
| "resolveCollated c r collatedPromise (Some (ChannelMessageAck v)) s =
     succeedAs Nakama_Realtime_ChannelMessageAck collatedPromise v s"
| "resolveCollated c r collatedPromise (Some (Match v)) s = succeedAs Nakama_Realtime_Match collatedPromise v s"
| "resolveCollated c r collatedPromise (Some (MatchmakerTicket v)) s =
     succeedAs Nakama_Realtime_MatchmakerTicket collatedPromise v s"
| "resolveCollated c r collatedPromise (Some (Status v)) s = succeedAs Nakama_Realtime_Status collatedPromise v s"
| "resolveCollated c r collatedPromise (Some (Party v)) s = succeedAs Nakama_Realtime_Party collatedPromise v s"
| "resolveCollated c r collatedPromise (Some (PartyMatchmakerTicket v)) s =
     succeedAs Nakama_Realtime_PartyMatchmakerTicket collatedPromise v s"
| "resolveCollated c r collatedPromise _ s =
     (case logErrorJson c ''Unrecognised incoming collated message from server: '' r s of
        Inl t \<Rightarrow> Inl t
      | Inr s' \<Rightarrow>
          (case cast_promise collatedPromise (EventLoopPromise Google_Protobuf_Empty) of
             Some promise \<Rightarrow> Inr (emit (Complete promise SucceedEmpty) s')
           | None \<Rightarrow> Inr s'))"

definition onReceivedData :: "codec \<Rightarrow> socket \<Rightarrow> bytes \<Rightarrow> trap + socket" where
  "onReceivedData c s data =
     (case decodeEnvelope c data of
        Inl error \<Rightarrow>
          Inr (invoke OnError (ErrorArgument (DecodingError error))
                 (logError (''Failed to deserialise message with error: '' @ error) s))
      | Inr response \<Rightarrow>
          if cid response = [] then dispatchUncollated c response (message response) s
          else
            (case collatedPromises s (cid response) of
               Some collatedPromise \<Rightarrow> resolveCollated c response collatedPromise (message response) s
             | None \<Rightarrow>
                 Inr (logError (''No matching promise for incoming collation ID: '' @ cid response) s)))"

subsection \<open>\<open>String(Int)\<close>\<close>

text \<open>The decimal text of an integer, as \<open>String(counter)\<close> gives it.\<close>

fun decimal :: "nat \<Rightarrow> string" where
  "decimal n =
     (if n < 10 then [''0123456789'' ! n]
      else decimal (n div 10) @ [''0123456789'' ! (n mod 10)])"

declare decimal.simps [simp del]

definition String_of_Int :: "int \<Rightarrow> string" where
  "String_of_Int i = (if i < 0 then CHR ''-'' # decimal (nat (- i)) else decimal (nat i))"

subsection \<open>\<open>Socket.connect\<close> and \<open>Socket.disconnect\<close>\<close>

text \<open>
  The URL is kept as the components it is built from. (\<open>components.url!\<close> is defined:
  a host is set and the path \<open>/ws\<close> is absolute.)
\<close>

definition connect :: "session \<Rightarrow> bool option \<Rightarrow> socket \<Rightarrow> socket" where
  "connect session appearOnline s =
     (let components =
            \<lparr>scheme = (if ssl s then ''wss'' else ''ws''),
             url_host = host s,
             url_port = port s,
             path = ''/ws'',
             queryItems = [(''token'', token session), (''format'', ''protobuf'')]\<rparr>;
          components' =
            (case appearOnline of
               Some online \<Rightarrow>
                 components\<lparr>queryItems := queryItems components @
                   [(''status'', if online then ''true'' else ''false'')]\<rparr>
             | None \<Rightarrow> components)
      in emit (AdapterConnect components') s)"

definition disconnect :: "socket \<Rightarrow> socket" where
  "disconnect s = emit AdapterDisconnect s"

subsection \<open>The callbacks \<open>Socket.init\<close> installs on the socket adapter\<close>

definition socketAdapter_onConnect :: "socket \<Rightarrow> socket" where
  "socketAdapter_onConnect s = invoke OnConnect NoArgument s"

definition socketAdapter_onDisconnect :: "socket \<Rightarrow> socket" where
  "socketAdapter_onDisconnect s = invoke OnDisconnect NoArgument s"

definition socketAdapter_onError :: "swift_error \<Rightarrow> socket \<Rightarrow> socket" where
  "socketAdapter_onError error s = invoke OnError (ErrorArgument error) s"

definition socketAdapter_onReceiveData :: "codec \<Rightarrow> bytes \<Rightarrow> socket \<Rightarrow> trap + socket" where
  "socketAdapter_onReceiveData c data s = onReceivedData c s data"

subsection \<open>\<open>Socket.send\<close>\<close>

text \<open>
  The part of \<open>send\<close> that runs before the caller suspends. The result is the socket,
  the envelope (an \<open>inout\<close> parameter, now carrying the collation id) and either the
  error \<open>try env.serializedData()\<close> threw or the promise whose future the caller awaits.
  \<open>wrappingIncrementThenLoad\<close> is the addition of a 64-bit word, read back signed.
\<close>

definition send :: "codec \<Rightarrow> value_type \<Rightarrow> envelope \<Rightarrow> socket \<Rightarrow> socket \<times> envelope \<times> (swift_error + promise)" where
  "send c t env s =
     (let n = collationCounter s + 1;
          counter = String_of_Int (sint n);
          promise = \<lparr>promiseId = nextPromise s, valueType = t\<rparr>;
          env' = env\<lparr>cid := counter\<rparr>;
          s' = s\<lparr>collationCounter := n,
                 collatedPromises := (collatedPromises s)(counter \<mapsto> promise),
                 nextPromise := Suc (nextPromise s)\<rparr>
      in case serializedData c env' of
           Inl error \<Rightarrow> (s', env', Inl (EncodingError error))
         | Inr binaryData \<Rightarrow> (emit (AdapterSend binaryData) s', env', Inr promise))"

subsection \<open>Match data and party data\<close>

text \<open>\<open>Nakama_Realtime_Envelope()\<close> with one message set.\<close>

definition Envelope :: "payload \<Rightarrow> envelope" where
  "Envelope m = \<lparr>cid = [], message = Some m\<rparr>"

text \<open>\<open>sendMatchData(matchId:opCode:data: Data, presences:)\<close>\<close>

definition sendMatchData :: "codec \<Rightarrow> string \<Rightarrow> int \<Rightarrow> bytes \<Rightarrow> body list option \<Rightarrow> socket \<Rightarrow> trap + socket" where
  "sendMatchData c matchId opCode data presences s =
     (let env = Envelope (MatchDataSend matchId opCode data
                  (case presences of Some ps \<Rightarrow> ps | None \<Rightarrow> []))
      in case serializedData c env of
           Inl error \<Rightarrow> Inl ForcedTryFailed
         | Inr binaryData \<Rightarrow> Inr (emit (AdapterSend binaryData) s))"

text \<open>
  \<open>sendMatchData(matchId:opCode:data: String, presences:)\<close>; the inner sum is the
  error thrown to the caller.
\<close>

definition sendMatchData_String :: "codec \<Rightarrow> string \<Rightarrow> int \<Rightarrow> string \<Rightarrow> body list option \<Rightarrow> socket \<Rightarrow> trap + (swift_error + socket)" where
  "sendMatchData_String c matchId opCode text presences s =
     (case utf8 c text of
        None \<Rightarrow> Inr (Inl (NakamaRealtimeError_text ''Unable to convert string to Data''))
      | Some data \<Rightarrow>
          (case sendMatchData c matchId opCode data presences s of
             Inl t \<Rightarrow> Inl t
           | Inr s' \<Rightarrow> Inr (Inr s')))"

text \<open>\<open>sendPartyData(partyId:opCode:data: Data)\<close>: a request that expects an empty reply.\<close>

definition sendPartyData :: "codec \<Rightarrow> string \<Rightarrow> int \<Rightarrow> bytes \<Rightarrow> socket \<Rightarrow> socket \<times> envelope \<times> (swift_error + promise)" where
  "sendPartyData c partyId opCode data s =
     send c Google_Protobuf_Empty (Envelope (PartyDataSend partyId opCode data)) s"

text \<open>
  \<open>sendPartyData(partyId:opCode:data: String)\<close>: the envelope is built in a local
  variable and the method returns.
\<close>

definition sendPartyData_String :: "codec \<Rightarrow> string \<Rightarrow> int \<Rightarrow> string \<Rightarrow> socket \<Rightarrow> swift_error + socket" where
  "sendPartyData_String c partyId opCode text s =
     (case utf8 c text of
        None \<Rightarrow> Inl (NakamaRealtimeError_text ''Unable to convert string to Data'')
      | Some data \<Rightarrow>
          (let env = Envelope (PartyDataSend partyId opCode data) in Inr s))"

subsection \<open>Interleavings\<close>

text \<open>
  What can happen to a socket, one step at a time: a caller starts a request or assigns
  one of the public handler properties, or the adapter reports a frame, an open, a close
  or an error. A run stops at a trap.
\<close>

datatype action =
    Request value_type envelope
  | Receive bytes
  | Opened
  | Closed
  | Failed swift_error
  | SetHandler handler bool

fun step :: "codec \<Rightarrow> action \<Rightarrow> socket \<Rightarrow> trap + socket" where
  "step c (Request t env) s = Inr (fst (send c t env s))"
| "step c (SetHandler h b) s = Inr (s\<lparr>handlerSet := (handlerSet s)(h := b)\<rparr>)"
| "step c (Receive data) s = onReceivedData c s data"
| "step c Opened s = Inr (socketAdapter_onConnect s)"
| "step c Closed s = Inr (socketAdapter_onDisconnect s)"
| "step c (Failed error) s = Inr (socketAdapter_onError error s)"

fun run :: "codec \<Rightarrow> action list \<Rightarrow> socket \<Rightarrow> trap + socket" where
  "run c [] s = Inr s"
| "run c (a # as) s = (case step c a s of Inl t \<Rightarrow> Inl t | Inr s' \<Rightarrow> run c as s')"

subsection \<open>A small wire format for running the model\<close>

text \<open>
  A frame is the kind of the message in one byte, followed by the characters of the
  collation id. Encoding refuses an \<open>OtherMessage\<close> body of more than eight characters,
  as the protobuf encoder refuses a message beyond its size limit; rendering an
  \<open>OtherMessage\<close> named \<open>any\<close> as JSON fails.
\<close>

definition frame :: "8 word \<Rightarrow> string \<Rightarrow> bytes" where
  "frame kind collationId = kind # map of_char collationId"

definition kindByte :: "payload option \<Rightarrow> 8 word" where
  "kindByte m =
     (case m of
        None \<Rightarrow> 0
      | Some (Error _ _) \<Rightarrow> 1
      | Some (Rpc _) \<Rightarrow> 2
      | Some (Match _) \<Rightarrow> 3
      | Some (ChannelMessage _) \<Rightarrow> 4
      | Some (MatchDataSend _ _ _ _) \<Rightarrow> 6
      | Some (PartyDataSend _ _ _) \<Rightarrow> 7
      | Some (PartyJoinRequest _) \<Rightarrow> 8
      | Some _ \<Rightarrow> 5)"

definition frameCodec :: codec where
  "frameCodec =
     \<lparr>serializedData = (\<lambda>env.
        (case message env of
           Some (OtherMessage name b) \<Rightarrow>
             if length b > 8 then Inl ''tooLarge''
             else Inr (frame (kindByte (message env)) (cid env))
         | _ \<Rightarrow> Inr (frame (kindByte (message env)) (cid env)))),
      decodeEnvelope = (\<lambda>data.
        (case data of
           [] \<Rightarrow> Inl ''truncated''
         | k # rest \<Rightarrow>
             (let i = map (\<lambda>b. char_of (unat b)) rest in
              if k = 0 then Inr \<lparr>cid = i, message = None\<rparr>
              else if k = 1 then Inr \<lparr>cid = i, message = Some (Error 5 ''not found'')\<rparr>
              else if k = 2 then Inr \<lparr>cid = i, message = Some (Rpc ''result'')\<rparr>
              else if k = 3 then Inr \<lparr>cid = i, message = Some (Match ''match'')\<rparr>
              else if k = 4 then Inr \<lparr>cid = i, message = Some (ChannelMessage ''hello'')\<rparr>
              else if k = 5 then Inr \<lparr>cid = i, message = Some (OtherMessage ''pong'' [])\<rparr>
              else if k = 8 then Inr \<lparr>cid = i, message = Some (PartyJoinRequest ''requests'')\<rparr>
              else Inl ''unknown kind''))),
      jsonString = (\<lambda>env.
        (case message env of
           Some (OtherMessage name b) \<Rightarrow> if name = ''any'' then None else Some (cid env)
         | _ \<Rightarrow> Some (cid env))),
      utf8 = (\<lambda>text. Some (map of_char text))\<rparr>"

subsection \<open>Reading the receive switch\<close>

text \<open>
  The type that the case of the collated switch for a payload force-casts the promise
  to; \<open>None\<close> for the error case and for every payload that falls to \<open>default\<close>.
\<close>

fun forcedCastType :: "payload \<Rightarrow> value_type option" where
  "forcedCastType (Rpc v) = Some Nakama_Api_Rpc"
| "forcedCastType (Channel v) = Some Nakama_Realtime_Channel"
| "forcedCastType (ChannelMessageAck v) = Some Nakama_Realtime_ChannelMessageAck"
| "forcedCastType (Match v) = Some Nakama_Realtime_Match"
| "forcedCastType (MatchmakerTicket v) = Some Nakama_Realtime_MatchmakerTicket"
| "forcedCastType (Status v) = Some Nakama_Realtime_Status"
| "forcedCastType (Party v) = Some Nakama_Realtime_Party"
| "forcedCastType (PartyMatchmakerTicket v) = Some Nakama_Realtime_PartyMatchmakerTicket"
| "forcedCastType _ = None"

fun isError :: "payload \<Rightarrow> bool" where
  "isError (Error code text) = True"
| "isError _ = False"

text \<open>What the collated switch passes to the promise it completes, for each payload.\<close>

fun completionFor :: "payload option \<Rightarrow> completion" where
  "completionFor (Some (Error code text)) = Fail (NakamaRealtimeError_error code text)"
| "completionFor (Some (Rpc v)) = Succeed v"
| "completionFor (Some (Channel v)) = Succeed v"
| "completionFor (Some (ChannelMessageAck v)) = Succeed v"
| "completionFor (Some (Match v)) = Succeed v"
| "completionFor (Some (MatchmakerTicket v)) = Succeed v"
| "completionFor (Some (Status v)) = Succeed v"
| "completionFor (Some (Party v)) = Succeed v"
| "completionFor (Some (PartyMatchmakerTicket v)) = Succeed v"
| "completionFor _ = SucceedEmpty"

subsection \<open>Observing a run\<close>

definition effectsOf :: "trap + socket \<Rightarrow> trap + effect list" where
  "effectsOf r = (case r of Inl t \<Rightarrow> Inl t | Inr s \<Rightarrow> Inr (effects s))"

definition pendingOf :: "trap + socket \<Rightarrow> string \<Rightarrow> trap + promise option" where
  "pendingOf r k = (case r of Inl t \<Rightarrow> Inl t | Inr s \<Rightarrow> Inr (collatedPromises s k))"

text \<open>A new socket with a logger, every handler assigned.\<close>

definition exampleSocket :: socket where
  "exampleSocket = (Socket_init ''127.0.0.1'' 7350 False True)\<lparr>handlerSet := (\<lambda>_. True)\<rparr>"

text \<open>
  The example socket after one request, whose promise waits under collation id 1:
  \<open>rpc(id:payload:)\<close>, \<open>createMatch()\<close>, \<open>leaveChat(channelId:)\<close> and
  \<open>listPartyJoinRequests(partyId:)\<close>.
\<close>

definition pendingRpc :: socket where
  "pendingRpc = fst (send frameCodec Nakama_Api_Rpc (Envelope (Rpc ''payload'')) exampleSocket)"

definition pendingMatch :: socket where
  "pendingMatch =
     fst (send frameCodec Nakama_Realtime_Match (Envelope (OtherMessage ''matchCreate'' [])) exampleSocket)"

definition pendingEmpty :: socket where
  "pendingEmpty =
     fst (send frameCodec Google_Protobuf_Empty (Envelope (OtherMessage ''channelLeave'' ''room'')) exampleSocket)"

definition pendingJoinRequests :: socket where
  "pendingJoinRequests =
     fst (send frameCodec Nakama_Realtime_PartyJoinRequest
            (Envelope (OtherMessage ''partyJoinRequestList'' ''party'')) exampleSocket)"

text \<open>
  Every promise in the dictionary was made by the event loop: its number is below the
  number of the next promise.
\<close>

definition promisesNumbered :: "socket \<Rightarrow> bool" where
  "promisesNumbered s \<longleftrightarrow> (\<forall>k q. collatedPromises s k = Some q \<longrightarrow> promiseId q < nextPromise s)"

section \<open>Properties\<close>

subsection \<open>What the primitives touch\<close>

lemma emit_fields [simp]:
  "effects (emit e s) = effects s @ [e]"
  "collatedPromises (emit e s) = collatedPromises s"
  "collationCounter (emit e s) = collationCounter s"
  "nextPromise (emit e s) = nextPromise s"
  "handlerSet (emit e s) = handlerSet s"
  "logger (emit e s) = logger s"
  by (simp_all add: emit_def)

lemma invoke_fields [simp]:
  "effects (invoke h a s) = effects s @ (if handlerSet s h then [Invoke h a] else [])"
  "collatedPromises (invoke h a s) = collatedPromises s"
  "collationCounter (invoke h a s) = collationCounter s"
  "nextPromise (invoke h a s) = nextPromise s"
  "handlerSet (invoke h a s) = handlerSet s"
  "logger (invoke h a s) = logger s"
  by (simp_all add: invoke_def)

lemma logError_fields [simp]:
  "effects (logError text s) = effects s @ (if logger s then [LogError text] else [])"
  "collatedPromises (logError text s) = collatedPromises s"
  "collationCounter (logError text s) = collationCounter s"
  "nextPromise (logError text s) = nextPromise s"
  "handlerSet (logError text s) = handlerSet s"
  "logger (logError text s) = logger s"
  by (simp_all add: logError_def)

subsection \<open>What the receive path can do\<close>

lemma logErrorJson_Inr:
  assumes "logErrorJson c pre r s = Inr s'"
  shows "collatedPromises s' = collatedPromises s"
    and "nextPromise s' = nextPromise s"
    and "collationCounter s' = collationCounter s"
    and "\<exists>es. effects s' = effects s @ es \<and> (\<forall>q v. Complete q v \<notin> set es)"
  using assms by (auto simp: logErrorJson_def split: if_splits option.splits)

lemma succeedAs_Inr:
  assumes "succeedAs t p v s = Inr s'"
  shows "valueType p = t" and "s' = emit (Complete p (Succeed v)) s"
  using assms by (auto simp: succeedAs_def split: if_splits option.splits)

lemma dispatchUncollated_Inr:
  assumes "dispatchUncollated c r m s = Inr s'"
  shows "collatedPromises s' = collatedPromises s \<and> nextPromise s' = nextPromise s \<and>
         (\<exists>es. effects s' = effects s @ es \<and> (\<forall>q v. Complete q v \<notin> set es))"
proof (cases m)
  case None
  with assms show ?thesis using logErrorJson_Inr [of c _ r s s'] by simp
next
  case (Some x)
  with assms show ?thesis
    by (cases x) (use logErrorJson_Inr [of c _ r s s'] in \<open>auto\<close>)
qed

lemma resolveCollated_Inr:
  assumes "resolveCollated c r p m s = Inr s'"
  shows "collatedPromises s' = collatedPromises s \<and> nextPromise s' = nextPromise s \<and>
         (\<exists>es. effects s' = effects s @ es \<and>
               (\<forall>q v. Complete q v \<in> set es \<longrightarrow> q = p \<and> v = completionFor m))"
proof -
  have dflt: ?thesis
    if "(case logErrorJson c ''Unrecognised incoming collated message from server: '' r s of
           Inl t \<Rightarrow> Inl t
         | Inr s1 \<Rightarrow>
             (case cast_promise p (EventLoopPromise Google_Protobuf_Empty) of
                Some promise \<Rightarrow> Inr (emit (Complete promise SucceedEmpty) s1)
              | None \<Rightarrow> Inr s1)) = Inr s'" and "completionFor m = SucceedEmpty"
    using that logErrorJson_Inr [of c _ r s]
    by (fastforce split: sum.splits option.splits if_splits)
  show ?thesis
  proof (cases m)
    case None
    with assms dflt show ?thesis by simp
  next
    case (Some x)
    show ?thesis
    proof (cases "forcedCastType x")
      case None
      note nc = this
      show ?thesis
      proof (cases "isError x")
        case True
        with Some assms show ?thesis
          by (cases x) (auto split: if_splits)
      next
        case False
        with nc Some assms dflt show ?thesis
          by (cases x) simp_all
      qed
    next
      case (Some t)
      with \<open>m = Some x\<close> assms show ?thesis
        by (cases x) (auto dest!: succeedAs_Inr)
    qed
  qed
qed

lemma onReceivedData_Inr:
  assumes "onReceivedData c s data = Inr s'"
  shows "collatedPromises s' = collatedPromises s" and "nextPromise s' = nextPromise s"
  using assms dispatchUncollated_Inr resolveCollated_Inr
  by (auto simp: onReceivedData_def split: sum.splits if_splits option.splits)

lemma onReceivedData_completions:
  assumes "onReceivedData c s data = Inr s'"
  shows "\<exists>es. effects s' = effects s @ es \<and>
           (\<forall>q v. Complete q v \<in> set es \<longrightarrow>
              (\<exists>r. decodeEnvelope c data = Inr r \<and> cid r \<noteq> [] \<and>
                   collatedPromises s (cid r) = Some q \<and> v = completionFor (message r)))"
proof (cases "decodeEnvelope c data")
  case (Inl e)
  with assms show ?thesis by (auto simp: onReceivedData_def)
next
  case (Inr r)
  show ?thesis
  proof (cases "cid r = []")
    case True
    with Inr assms have "dispatchUncollated c r (message r) s = Inr s'"
      by (simp add: onReceivedData_def)
    from dispatchUncollated_Inr [OF this] show ?thesis by blast
  next
    case False
    show ?thesis
    proof (cases "collatedPromises s (cid r)")
      case None
      with False Inr assms show ?thesis by (auto simp: onReceivedData_def)
    next
      case (Some p)
      with False Inr assms have "resolveCollated c r p (message r) s = Inr s'"
        by (simp add: onReceivedData_def)
      from resolveCollated_Inr [OF this] Some False Inr show ?thesis by blast
    qed
  qed
qed

subsection \<open>What a run can do to the dictionary\<close>

lemma send_registers:
  "collatedPromises (fst (send c t env s)) =
     (collatedPromises s)(String_of_Int (sint (collationCounter s + 1)) \<mapsto>
        \<lparr>promiseId = nextPromise s, valueType = t\<rparr>)"
  "nextPromise (fst (send c t env s)) = Suc (nextPromise s)"
  "cid (fst (snd (send c t env s))) = String_of_Int (sint (collationCounter s + 1))"
  by (simp_all add: send_def Let_def split: sum.splits)

lemma send_promise:
  assumes "send c t env s = (s1, env1, Inr p)"
  shows "p = \<lparr>promiseId = nextPromise s, valueType = t\<rparr>"
  using assms by (auto simp: send_def Let_def split: sum.splits)

lemma step_registry:
  assumes "step c a s = Inr s'"
  shows "dom (collatedPromises s) \<subseteq> dom (collatedPromises s')"
    and "(\<forall>t env. a \<noteq> Request t env) \<longrightarrow> collatedPromises s' = collatedPromises s"
  using assms
  by (cases a; auto simp: send_registers onReceivedData_Inr socketAdapter_onConnect_def
        socketAdapter_onDisconnect_def socketAdapter_onError_def)+

lemma step_place:
  assumes "step c a s = Inr s'" and "promiseId p < nextPromise s"
    and "\<forall>k'. collatedPromises s k' = Some p \<longrightarrow> k' = k"
  shows "promiseId p < nextPromise s' \<and> (\<forall>k'. collatedPromises s' k' = Some p \<longrightarrow> k' = k)"
proof (cases a)
  case (Request t env)
  with assms(1) have s': "s' = fst (send c t env s)" by simp
  have "\<lparr>promiseId = nextPromise s, valueType = t\<rparr> \<noteq> p"
    using assms(2) by auto
  with assms(2,3) show ?thesis
    unfolding s' by (auto simp: send_registers split: if_splits)
next
  case (Receive data)
  with assms show ?thesis by (simp add: onReceivedData_Inr)
qed (use assms in \<open>auto simp: socketAdapter_onConnect_def
        socketAdapter_onDisconnect_def socketAdapter_onError_def\<close>)

lemma run_place:
  assumes "run c acts s = Inr s'" and "promiseId p < nextPromise s"
    and "\<forall>k'. collatedPromises s k' = Some p \<longrightarrow> k' = k"
  shows "\<forall>k'. collatedPromises s' k' = Some p \<longrightarrow> k' = k"
  using assms
proof (induction acts arbitrary: s)
  case Nil
  then show ?case by simp
next
  case (Cons a acts)
  then obtain s1 where st: "step c a s = Inr s1" and rn: "run c acts s1 = Inr s'"
    by (auto split: sum.splits)
  from step_place [OF st Cons.prems(2,3)] Cons.IH [OF rn] show ?case by blast
qed

lemma step_numbered:
  assumes "step c a s = Inr s'" and "promisesNumbered s"
  shows "promisesNumbered s'"
proof (cases a)
  case (Request t env)
  with assms(1) have s': "s' = fst (send c t env s)" by simp
  from assms(2) show ?thesis
    unfolding s' promisesNumbered_def by (auto simp: send_registers less_Suc_eq split: if_splits)
next
  case (Receive data)
  with assms show ?thesis by (simp add: promisesNumbered_def onReceivedData_Inr)
qed (use assms in \<open>auto simp: promisesNumbered_def socketAdapter_onConnect_def
        socketAdapter_onDisconnect_def socketAdapter_onError_def\<close>)

lemma run_numbered:
  assumes "run c acts s = Inr s'" and "promisesNumbered s"
  shows "promisesNumbered s'"
  using assms
proof (induction acts arbitrary: s)
  case Nil
  then show ?case by simp
next
  case (Cons a acts)
  then obtain s1 where st: "step c a s = Inr s1" and rn: "run c acts s1 = Inr s'"
    by (auto split: sum.splits)
  from Cons.IH [OF rn step_numbered [OF st Cons.prems(2)]] show ?case .
qed

lemma Socket_init_numbered: "promisesNumbered (Socket_init h p tls lg)"
  by (simp add: promisesNumbered_def Socket_init_def)

subsection \<open>Connecting\<close>

text \<open>
  C10. \<open>connect(session:appearOnline:)\<close> hands the adapter one URL: scheme \<open>wss\<close> when
  \<open>ssl\<close> is set and \<open>ws\<close> otherwise, the socket's host and port, the path \<open>/ws\<close>, the
  query items \<open>token\<close> (the session's token) and \<open>format=protobuf\<close>, followed by a
  \<open>status\<close> item reading \<open>true\<close> or \<open>false\<close> exactly when \<open>appearOnline\<close> is given.
  The dictionary of pending promises is unchanged.
\<close>

theorem connect_opens_url:
  "effects (connect session appearOnline s) =
     effects s @
     [AdapterConnect
        \<lparr>scheme = (if ssl s then ''wss'' else ''ws''),
         url_host = host s,
         url_port = port s,
         path = ''/ws'',
         queryItems =
           [(''token'', token session), (''format'', ''protobuf'')] @
           (case appearOnline of
              None \<Rightarrow> []
            | Some online \<Rightarrow> [(''status'', if online then ''true'' else ''false'')])\<rparr>]
   \<and> collatedPromises (connect session appearOnline s) = collatedPromises s"
  by (cases appearOnline) (simp_all add: connect_def Let_def)

subsection \<open>Losing the connection\<close>

text \<open>
  C1 (as amended). When the adapter reports a close or an error, the socket only calls
  the \<open>onDisconnect\<close> or \<open>onError\<close> handler, if one is assigned: the dictionary of
  pending promises is left as it was and no promise is completed. The class has no
  bulk cancellation.
\<close>

theorem disconnect_cancels_nothing:
  "collatedPromises (socketAdapter_onDisconnect s) = collatedPromises s \<and>
   effects (socketAdapter_onDisconnect s) =
     effects s @ (if handlerSet s OnDisconnect then [Invoke OnDisconnect NoArgument] else []) \<and>
   collatedPromises (socketAdapter_onError error s) = collatedPromises s \<and>
   effects (socketAdapter_onError error s) =
     effects s @ (if handlerSet s OnError then [Invoke OnError (ErrorArgument error)] else [])"
  by (simp add: socketAdapter_onDisconnect_def socketAdapter_onError_def)

text \<open>
  C1 as stated fails: with one request pending under collation id 1, a close followed
  by an error leaves its promise in the dictionary, and the only effects after the
  frame that was sent are the two handler calls.
\<close>

theorem disconnect_leaves_request_waiting:
  "pendingOf (run frameCodec [Closed, Failed (AdapterError ''reset'')] pendingRpc) ''1'' =
     Inr (Some \<lparr>promiseId = 0, valueType = Nakama_Api_Rpc\<rparr>) \<and>
   effectsOf (run frameCodec [Closed, Failed (AdapterError ''reset'')] pendingRpc) =
     Inr [AdapterSend (frame 2 ''1''), Invoke OnDisconnect NoArgument,
          Invoke OnError (ErrorArgument (AdapterError ''reset''))]"
  by code_simp

subsection \<open>Responses that carry an error\<close>

text \<open>
  C3 (what the code does). For a pending promise found under the collation id of a
  response that carries the error payload, the promise is failed with
  \<open>NakamaRealtimeError(error:)\<close> only when it is a promise of \<open>Google_Protobuf_Empty\<close>;
  for a promise of any other type both conditional casts give nil, nothing is
  completed and the socket is unchanged.
\<close>

theorem error_response_fails_only_empty_promise:
  assumes "decodeEnvelope c data = Inr r" and "cid r \<noteq> []"
    and "collatedPromises s (cid r) = Some p"
    and "message r = Some (Error code text)"
  shows "onReceivedData c s data =
           (if valueType p = Google_Protobuf_Empty
            then Inr (emit (Complete p (Fail (NakamaRealtimeError_error code text))) s)
            else Inr s)"
  using assms by (simp add: onReceivedData_def)

text \<open>
  The instance: \<open>rpc\<close> is pending under id 1, the server answers \<open>error{5, not found}\<close>
  for id 1. No completion is recorded and the promise is still pending.
\<close>

theorem error_response_to_rpc_dropped:
  "effectsOf (onReceivedData frameCodec pendingRpc (frame 1 ''1'')) = Inr [AdapterSend (frame 2 ''1'')] \<and>
   pendingOf (onReceivedData frameCodec pendingRpc (frame 1 ''1'')) ''1'' =
     Inr (Some \<lparr>promiseId = 0, valueType = Nakama_Api_Rpc\<rparr>)"
proof -
  have d: "decodeEnvelope frameCodec (frame 1 ''1'') = Inr \<lparr>cid = ''1'', message = Some (Error 5 ''not found'')\<rparr>"
    by code_simp
  have p: "collatedPromises pendingRpc ''1'' = Some \<lparr>promiseId = 0, valueType = Nakama_Api_Rpc\<rparr>"
    by code_simp
  have e: "effects pendingRpc = [AdapterSend (frame 2 ''1'')]"
    by code_simp
  have "onReceivedData frameCodec pendingRpc (frame 1 ''1'') = Inr pendingRpc"
    using error_response_fails_only_empty_promise [OF d, of pendingRpc _ 5 "''not found''"] p
    by simp
  with p e show ?thesis by (simp add: effectsOf_def pendingOf_def)
qed

subsection \<open>Responses of another kind than the promise\<close>

text \<open>
  C4 (as amended). For a pending promise and a correlated response whose payload is
  not the error: when the payload is one of the eight kinds the switch names and the
  promise is of another type, the forced cast traps and the request is not completed;
  when the payload falls to the default case and the promise is not a promise of
  \<open>Google_Protobuf_Empty\<close>, the receive path does what its log line does (it writes
  the line, or traps when the JSON rendering throws) and completes nothing. No mismatch
  error is produced.
\<close>

theorem mismatched_response_resolution:
  assumes "decodeEnvelope c data = Inr r" and "cid r \<noteq> []"
    and "collatedPromises s (cid r) = Some p"
    and "message r = Some m" and "\<not> isError m"
  shows "(\<forall>t. forcedCastType m = Some t \<and> valueType p \<noteq> t \<longrightarrow>
            onReceivedData c s data = Inl ForcedCastFailed) \<and>
         (forcedCastType m = None \<and> valueType p \<noteq> Google_Protobuf_Empty \<longrightarrow>
            onReceivedData c s data =
              logErrorJson c ''Unrecognised incoming collated message from server: '' r s)"
  using assms
  by (cases m) (auto simp: onReceivedData_def succeedAs_def split: sum.splits)

theorem mismatched_response_resolution_witness:
  "onReceivedData frameCodec pendingMatch (frame 2 ''1'') = Inl ForcedCastFailed \<and>
   onReceivedData frameCodec pendingMatch (frame 5 ''1'') =
     logErrorJson frameCodec ''Unrecognised incoming collated message from server: ''
       \<lparr>cid = ''1'', message = Some (OtherMessage ''pong'' [])\<rparr> pendingMatch"
proof -
  have p: "collatedPromises pendingMatch ''1'' = Some \<lparr>promiseId = 0, valueType = Nakama_Realtime_Match\<rparr>"
    by code_simp
  have d1: "decodeEnvelope frameCodec (frame 2 ''1'') = Inr \<lparr>cid = ''1'', message = Some (Rpc ''result'')\<rparr>"
    by code_simp
  have d2: "decodeEnvelope frameCodec (frame 5 ''1'') = Inr \<lparr>cid = ''1'', message = Some (OtherMessage ''pong'' [])\<rparr>"
    by code_simp
  show ?thesis
    using mismatched_response_resolution [OF d1, of pendingMatch _ "Rpc ''result''"]
      mismatched_response_resolution [OF d2, of pendingMatch _ "OtherMessage ''pong'' []"] p
    by simp
qed

text \<open>
  C4 as stated fails: \<open>createMatch\<close> is pending under id 1 and the response for id 1
  carries an rpc payload; the receive path traps.
\<close>

theorem mismatched_response_traps:
  "effectsOf (onReceivedData frameCodec pendingMatch (frame 2 ''1'')) = Inl ForcedCastFailed"
  by code_simp

subsection \<open>Frames that do not decode, responses without a promise\<close>



subsection \<open>Requests that expect no value\<close>

text \<open>
  C7 (as amended). For a pending promise of \<open>Google_Protobuf_Empty\<close>, a correlated
  response whose payload is absent or falls to the default case of the switch (not the
  error and none of the eight named kinds) succeeds the promise with an empty value,
  after the log line, provided the log line can be written (no logger, or the JSON
  rendering of the envelope does not throw). The dictionary is unchanged.
\<close>

theorem empty_promise_succeeds_on_default_kind:
  assumes "decodeEnvelope c data = Inr r" and "cid r \<noteq> []"
    and "collatedPromises s (cid r) = Some p"
    and "valueType p = Google_Protobuf_Empty"
    and "message r = None \<or> (\<exists>m. message r = Some m \<and> \<not> isError m \<and> forcedCastType m = None)"
    and "\<not> logger s \<or> jsonString c r \<noteq> None"
  shows "\<exists>s'. onReceivedData c s data = Inr s' \<and>
              collatedPromises s' = collatedPromises s \<and>
              (\<exists>text. effects s' = effects s @
                 (if logger s then [LogError text] else []) @ [Complete p SucceedEmpty])"
proof -
  have "resolveCollated c r p (message r) s =
          (case logErrorJson c ''Unrecognised incoming collated message from server: '' r s of
             Inl t \<Rightarrow> Inl t
           | Inr s' \<Rightarrow> Inr (emit (Complete p SucceedEmpty) s'))"
  proof (cases "message r")
    case None
    with assms(4) show ?thesis by (simp split: sum.splits)
  next
    case (Some m)
    with assms(5) have "\<not> isError m" "forcedCastType m = None" by auto
    with Some assms(4) show ?thesis by (cases m) (simp_all split: sum.splits)
  qed
  with assms(1-3) have "onReceivedData c s data =
          (case logErrorJson c ''Unrecognised incoming collated message from server: '' r s of
             Inl t \<Rightarrow> Inl t
           | Inr s' \<Rightarrow> Inr (emit (Complete p SucceedEmpty) s'))"
    by (simp add: onReceivedData_def)
  with assms(6) show ?thesis
    by (auto simp: logErrorJson_def split: option.splits)
qed

theorem empty_promise_succeeds_on_default_kind_witness:
  "\<exists>s'. onReceivedData frameCodec pendingEmpty (frame 5 ''1'') = Inr s' \<and>
        collatedPromises s' = collatedPromises pendingEmpty \<and>
        (\<exists>text. effects s' = effects pendingEmpty @
           (if logger pendingEmpty then [LogError text] else []) @
           [Complete \<lparr>promiseId = 0, valueType = Google_Protobuf_Empty\<rparr> SucceedEmpty])"
proof -
  have d: "decodeEnvelope frameCodec (frame 5 ''1'') = Inr \<lparr>cid = ''1'', message = Some (OtherMessage ''pong'' [])\<rparr>"
    by code_simp
  have p: "collatedPromises pendingEmpty ''1'' = Some \<lparr>promiseId = 0, valueType = Google_Protobuf_Empty\<rparr>"
    by code_simp
  have j: "jsonString frameCodec \<lparr>cid = ''1'', message = Some (OtherMessage ''pong'' [])\<rparr> \<noteq> None"
    by code_simp
  show ?thesis
    using empty_promise_succeeds_on_default_kind [OF d, of pendingEmpty "\<lparr>promiseId = 0, valueType = Google_Protobuf_Empty\<rparr>"] p j
    by simp
qed

text \<open>
  C7 as stated fails: \<open>leaveChat\<close> is pending under id 1 and the response for id 1
  carries an rpc payload, a kind the switch names; the forced cast to a promise of
  \<open>Nakama_Api_Rpc\<close> traps.
\<close>

theorem empty_promise_traps_on_named_kind:
  "effectsOf (onReceivedData frameCodec pendingEmpty (frame 2 ''1'')) = Inl ForcedCastFailed"
  by code_simp

subsection \<open>A request whose envelope does not encode\<close>

text \<open>
  C8 (as amended). When \<open>env.serializedData()\<close> throws, \<open>send\<close> throws that encoding
  error to its caller at once and hands nothing to the adapter; the promise it made is
  not completed and stays in the dictionary under the collation id of the call. Every
  other key of the dictionary is as before.
\<close>

theorem failed_encoding_throws_and_keeps_entry:
  assumes "serializedData c (env\<lparr>cid := String_of_Int (sint (collationCounter s + 1))\<rparr>) = Inl e"
  shows "snd (snd (send c t env s)) = Inl (EncodingError e) \<and>
         effects (fst (send c t env s)) = effects s \<and>
         collatedPromises (fst (send c t env s)) =
           (collatedPromises s)(String_of_Int (sint (collationCounter s + 1)) \<mapsto>
              \<lparr>promiseId = nextPromise s, valueType = t\<rparr>)"
  using assms by (simp add: send_def Let_def)

theorem failed_encoding_throws_and_keeps_entry_witness:
  "snd (snd (send frameCodec Nakama_Api_Rpc (Envelope (OtherMessage ''rpc'' ''123456789'')) pendingMatch)) =
     Inl (EncodingError ''tooLarge'') \<and>
   effects (fst (send frameCodec Nakama_Api_Rpc (Envelope (OtherMessage ''rpc'' ''123456789'')) pendingMatch)) =
     effects pendingMatch \<and>
   collatedPromises (fst (send frameCodec Nakama_Api_Rpc (Envelope (OtherMessage ''rpc'' ''123456789'')) pendingMatch)) =
     (collatedPromises pendingMatch)(String_of_Int (sint (collationCounter pendingMatch + 1)) \<mapsto>
        \<lparr>promiseId = nextPromise pendingMatch, valueType = Nakama_Api_Rpc\<rparr>)"
proof -
  have "serializedData frameCodec
          ((Envelope (OtherMessage ''rpc'' ''123456789''))
             \<lparr>cid := String_of_Int (sint (collationCounter pendingMatch + 1))\<rparr>) = Inl ''tooLarge''"
    by code_simp
  from failed_encoding_throws_and_keeps_entry [OF this] show ?thesis .
qed

text \<open>
  C8 as stated fails: the second request of a socket does not encode; the call throws,
  its promise is in the dictionary under id 2, and no completion is recorded.
\<close>

theorem failed_encoding_leaves_entry:
  "snd (snd (send frameCodec Nakama_Api_Rpc (Envelope (OtherMessage ''rpc'' ''123456789'')) pendingMatch)) =
     Inl (EncodingError ''tooLarge'') \<and>
   collatedPromises (fst (send frameCodec Nakama_Api_Rpc (Envelope (OtherMessage ''rpc'' ''123456789'')) pendingMatch)) ''2'' =
     Some \<lparr>promiseId = 1, valueType = Nakama_Api_Rpc\<rparr> \<and>
   effects (fst (send frameCodec Nakama_Api_Rpc (Envelope (OtherMessage ''rpc'' ''123456789'')) pendingMatch)) =
     [AdapterSend (frame 5 ''1'')]"
  by code_simp

subsection \<open>Match data and party data\<close>

text \<open>
  \<open>sendMatchData\<close> hands the encoded envelope to the adapter and registers nothing.
\<close>

lemma sendMatchData_sends:
  assumes "serializedData c (Envelope (MatchDataSend matchId opCode data (case presences of Some ps \<Rightarrow> ps | None \<Rightarrow> []))) = Inr binaryData"
  shows "sendMatchData c matchId opCode data presences s = Inr (emit (AdapterSend binaryData) s)"
  using assms by (simp add: sendMatchData_def Let_def)

text \<open>
  C9 (what the code does). \<open>sendPartyData(partyId:opCode:data: String)\<close> returns the
  socket as it was: the dictionary is unchanged, and no frame is handed to the
  adapter either.
\<close>

theorem sendPartyData_String_sends_nothing:
  "sendPartyData_String c partyId opCode text s =
     (case utf8 c text of
        None \<Rightarrow> Inl (NakamaRealtimeError_text ''Unable to convert string to Data'')
      | Some data \<Rightarrow> Inr s)"
  by (simp add: sendPartyData_String_def Let_def split: option.splits)

subsection \<open>Requests and their responses\<close>

text \<open>
  Where a completion can come from. Take any socket reached from a new one by requests,
  frames and adapter events in any order, and a call of \<open>send\<close> on it that registers
  the promise \<open>p\<close> and writes the collation id into its envelope. Whatever happens
  afterwards, a frame whose handling completes \<open>p\<close> decodes to an envelope with that
  same collation id, and the value \<open>p\<close> is completed with is the one the switch takes
  from that envelope.
\<close>

theorem completion_comes_from_own_id:
  assumes "run c before (Socket_init h po tls lg) = Inr s"
    and "send c t env s = (s1, env1, Inr p)"
    and "run c between s1 = Inr s2"
    and "onReceivedData c s2 data = Inr s3"
    and "Complete p v \<in> set (drop (length (effects s2)) (effects s3))"
  shows "\<exists>r. decodeEnvelope c data = Inr r \<and> cid r = cid env1 \<and> v = completionFor (message r)"
proof -
  let ?k = "String_of_Int (sint (collationCounter s + 1))"
  have num: "promisesNumbered s"
    using run_numbered [OF assms(1) Socket_init_numbered] .
  have p: "p = \<lparr>promiseId = nextPromise s, valueType = t\<rparr>"
    using send_promise [OF assms(2)] .
  have s1: "s1 = fst (send c t env s)" and env1: "env1 = fst (snd (send c t env s))"
    using assms(2) by simp_all
  have k: "cid env1 = ?k"
    unfolding env1 by (simp add: send_registers)
  have below: "promiseId p < nextPromise s1"
    unfolding s1 p by (simp add: send_registers)
  have "collatedPromises s k' \<noteq> Some p" for k'
  proof
    assume "collatedPromises s k' = Some p"
    with num have "promiseId p < nextPromise s"
      unfolding promisesNumbered_def by blast
    with p show False by simp
  qed
  then have only: "\<forall>k'. collatedPromises s1 k' = Some p \<longrightarrow> k' = ?k"
    unfolding s1 by (simp add: send_registers)
  have place: "\<forall>k'. collatedPromises s2 k' = Some p \<longrightarrow> k' = ?k"
    using run_place [OF assms(3) below only] .
  from onReceivedData_completions [OF assms(4)] obtain es where
    es: "effects s3 = effects s2 @ es" and
    src: "\<forall>q w. Complete q w \<in> set es \<longrightarrow>
            (\<exists>r. decodeEnvelope c data = Inr r \<and> cid r \<noteq> [] \<and>
                 collatedPromises s2 (cid r) = Some q \<and> w = completionFor (message r))"
    by blast
  from assms(5) es have "Complete p v \<in> set es" by simp
  with src obtain r where "decodeEnvelope c data = Inr r"
    and "collatedPromises s2 (cid r) = Some p" and "v = completionFor (message r)"
    by blast
  with place k show ?thesis by auto
qed

text \<open>
  Three requests with ids 1, 2, 3; the response for 3 arrives before the response for
  2. Each promise gets the value of its own response.
\<close>

theorem completion_comes_from_own_id_witness:
  "effectsOf
     (run frameCodec
        [Request Nakama_Api_Rpc (Envelope (Rpc ''first'')),
         Request Nakama_Realtime_Match (Envelope (OtherMessage ''matchCreate'' [])),
         Request Nakama_Api_Rpc (Envelope (Rpc ''third'')),
         Receive (frame 2 ''3''),
         Receive (frame 3 ''2'')]
        (Socket_init ''127.0.0.1'' 7350 False True)) =
     Inr [AdapterSend (frame 2 ''1''), AdapterSend (frame 5 ''2''), AdapterSend (frame 2 ''3''),
          Complete \<lparr>promiseId = 2, valueType = Nakama_Api_Rpc\<rparr> (Succeed ''result''),
          Complete \<lparr>promiseId = 1, valueType = Nakama_Realtime_Match\<rparr> (Succeed ''match'')] \<and>
   (\<exists>r. decodeEnvelope frameCodec (frame 3 ''2'') = Inr r \<and> cid r = ''2'' \<and>
        Succeed ''match'' = completionFor (message r))"
proof -
  let ?init = "Socket_init ''127.0.0.1'' 7350 False True"
  let ?before = "[Request Nakama_Api_Rpc (Envelope (Rpc ''first''))]"
  let ?env = "Envelope (OtherMessage ''matchCreate'' [])"
  let ?between = "[Request Nakama_Api_Rpc (Envelope (Rpc ''third'')), Receive (frame 2 ''3'')]"
  let ?p = "\<lparr>promiseId = 1, valueType = Nakama_Realtime_Match\<rparr>"
  let ?s = "projr (run frameCodec ?before ?init)"
  let ?s1 = "fst (send frameCodec Nakama_Realtime_Match ?env ?s)"
  let ?env1 = "fst (snd (send frameCodec Nakama_Realtime_Match ?env ?s))"
  let ?s2 = "projr (run frameCodec ?between ?s1)"
  let ?s3 = "projr (onReceivedData frameCodec ?s2 (frame 3 ''2''))"
  have "\<not> isl (run frameCodec ?before ?init)"
    by code_simp
  then have h1: "run frameCodec ?before ?init = Inr ?s"
    by simp
  have "snd (snd (send frameCodec Nakama_Realtime_Match ?env ?s)) = Inr ?p"
    by code_simp
  then have h2: "send frameCodec Nakama_Realtime_Match ?env ?s = (?s1, ?env1, Inr ?p)"
    by (metis prod.collapse)
  have "\<not> isl (run frameCodec ?between ?s1)"
    by code_simp
  then have h3: "run frameCodec ?between ?s1 = Inr ?s2"
    by simp
  have "\<not> isl (onReceivedData frameCodec ?s2 (frame 3 ''2''))"
    by code_simp
  then have h4: "onReceivedData frameCodec ?s2 (frame 3 ''2'') = Inr ?s3"
    by simp
  have h5: "Complete ?p (Succeed ''match'') \<in> set (drop (length (effects ?s2)) (effects ?s3))"
    by code_simp
  have k: "cid ?env1 = ''2''"
    by code_simp
  have e: "effectsOf
     (run frameCodec
        [Request Nakama_Api_Rpc (Envelope (Rpc ''first'')),
         Request Nakama_Realtime_Match (Envelope (OtherMessage ''matchCreate'' [])),
         Request Nakama_Api_Rpc (Envelope (Rpc ''third'')),
         Receive (frame 2 ''3''),
         Receive (frame 3 ''2'')]
        (Socket_init ''127.0.0.1'' 7350 False True)) =
     Inr [AdapterSend (frame 2 ''1''), AdapterSend (frame 5 ''2''), AdapterSend (frame 2 ''3''),
          Complete \<lparr>promiseId = 2, valueType = Nakama_Api_Rpc\<rparr> (Succeed ''result''),
          Complete \<lparr>promiseId = 1, valueType = Nakama_Realtime_Match\<rparr> (Succeed ''match'')]"
    by code_simp
  from completion_comes_from_own_id [OF h1 h2 h3 h4 h5] k e show ?thesis
    by simp
qed

text \<open>
  Where a reply goes. \<open>send\<close> leaves its promise in the dictionary under the collation
  id it wrote into the envelope; a reply with that id and one of the eight kinds the
  switch names, arriving for a promise of that kind's type, completes the promise with
  the value of the reply.
\<close>

lemma send_pending:
  assumes "send c t env s = (s1, env1, Inr p)"
  shows "collatedPromises s1 (cid env1) = Some p"
  using assms by (auto simp: send_def Let_def split: sum.splits)

lemma own_response_completes:
  assumes "decodeEnvelope c data = Inr r" and "cid r \<noteq> []"
    and "collatedPromises s (cid r) = Some p"
    and "message r = Some m" and "forcedCastType m = Some (valueType p)"
  shows "onReceivedData c s data = Inr (emit (Complete p (completionFor (Some m))) s)"
  using assms
  by (cases m) (auto simp: onReceivedData_def succeedAs_def)

text \<open>
  C2 (what the code does). \<open>listPartyJoinRequests\<close> awaits a promise of
  \<open>Nakama_Realtime_PartyJoinRequest\<close>. A reply that carries the collation id of that
  promise and the payload it awaits, \<open>partyJoinRequest\<close>, finds no case in the collated
  switch and falls to \<open>default\<close>: the receive path writes its log line (or traps when
  the JSON rendering throws) and completes nothing, so this call never gets the value
  of its own response.
\<close>

theorem partyJoinRequest_reply_completes_nothing:
  assumes "decodeEnvelope c data = Inr r" and "cid r \<noteq> []"
    and "collatedPromises s (cid r) = Some p"
    and "valueType p = Nakama_Realtime_PartyJoinRequest"
    and "message r = Some (PartyJoinRequest v)"
  shows "onReceivedData c s data =
           (if logger s then
              (case jsonString c r of
                 None \<Rightarrow> Inl ForcedTryFailed
               | Some json \<Rightarrow>
                   Inr (emit (LogError (''Unrecognised incoming collated message from server: '' @ json)) s))
            else Inr s)"
  using assms
  by (simp add: onReceivedData_def logErrorJson_def split: option.splits)

text \<open>
  The instance: \<open>listPartyJoinRequests\<close> is pending under id 1 and the server answers
  with a \<open>partyJoinRequest\<close> for id 1. The only new effect is the log line, and the
  promise is still pending.
\<close>

theorem listPartyJoinRequests_reply_dropped:
  "effectsOf (onReceivedData frameCodec pendingJoinRequests (frame 8 ''1'')) =
     Inr [AdapterSend (frame 5 ''1''),
          LogError ''Unrecognised incoming collated message from server: 1''] \<and>
   pendingOf (onReceivedData frameCodec pendingJoinRequests (frame 8 ''1'')) ''1'' =
     Inr (Some \<lparr>promiseId = 0, valueType = Nakama_Realtime_PartyJoinRequest\<rparr>)"
proof -
  let ?r = "\<lparr>cid = ''1'', message = Some (PartyJoinRequest ''requests'')\<rparr>"
  let ?p = "\<lparr>promiseId = 0, valueType = Nakama_Realtime_PartyJoinRequest\<rparr>"
  have d: "decodeEnvelope frameCodec (frame 8 ''1'') = Inr ?r"
    by code_simp
  have p: "collatedPromises pendingJoinRequests ''1'' = Some ?p"
    by code_simp
  have l: "logger pendingJoinRequests"
    by code_simp
  have j: "jsonString frameCodec ?r = Some ''1''"
    by code_simp
  have e: "effects pendingJoinRequests = [AdapterSend (frame 5 ''1'')]"
    by code_simp
  have "onReceivedData frameCodec pendingJoinRequests (frame 8 ''1'') =
          Inr (emit (LogError ''Unrecognised incoming collated message from server: 1'') pendingJoinRequests)"
    using partyJoinRequest_reply_completes_nothing [OF d, of pendingJoinRequests ?p "''requests''"] p l j
    by simp
  with p e show ?thesis
    by (simp add: effectsOf_def pendingOf_def)
qed

subsection \<open>The lifetime of an entry\<close>

text \<open>
  C5 (as amended). No step removes an entry of the dictionary of pending promises:
  every collation id present before a run is present after it, and a run without a
  new request (frames resolved in any way, closes, errors) leaves the dictionary
  exactly as it was.
\<close>

theorem entries_are_never_removed:
  assumes "run c acts s = Inr s'"
  shows "dom (collatedPromises s) \<subseteq> dom (collatedPromises s') \<and>
         ((\<forall>a \<in> set acts. \<forall>t env. a \<noteq> Request t env) \<longrightarrow>
            collatedPromises s' = collatedPromises s)"
  using assms
proof (induction acts arbitrary: s)
  case Nil
  then show ?case by simp
next
  case (Cons a acts)
  then obtain s1 where st: "step c a s = Inr s1" and rn: "run c acts s1 = Inr s'"
    by (auto split: sum.splits)
  from step_registry [OF st] Cons.IH [OF rn] show ?case by auto
qed

theorem entries_are_never_removed_witness:
  "\<exists>s'. run frameCodec [Receive (frame 2 ''1''), Closed, Receive (frame 1 ''1''), Failed (AdapterError ''reset'')] pendingRpc = Inr s' \<and>
        dom (collatedPromises pendingRpc) \<subseteq> dom (collatedPromises s') \<and>
        collatedPromises s' = collatedPromises pendingRpc"
proof -
  let ?acts = "[Receive (frame 2 ''1''), Closed, Receive (frame 1 ''1''), Failed (AdapterError ''reset'')]"
  have "\<not> isl (run frameCodec ?acts pendingRpc)"
    by code_simp
  then obtain s' where r: "run frameCodec ?acts pendingRpc = Inr s'"
    by (cases "run frameCodec ?acts pendingRpc") simp_all
  from entries_are_never_removed [OF r] r show ?thesis
    by simp
qed

text \<open>
  C5 as stated fails: after the matching response for id 1 the entry is still in the
  dictionary, and a second response for id 1 completes the same promise again.
\<close>

theorem resolved_entry_still_present:
  "pendingOf (run frameCodec [Receive (frame 2 ''1'')] pendingRpc) ''1'' =
     Inr (Some \<lparr>promiseId = 0, valueType = Nakama_Api_Rpc\<rparr>) \<and>
   effectsOf (run frameCodec [Receive (frame 2 ''1''), Receive (frame 2 ''1'')] pendingRpc) =
     Inr [AdapterSend (frame 2 ''1''),
          Complete \<lparr>promiseId = 0, valueType = Nakama_Api_Rpc\<rparr> (Succeed ''result''),
          Complete \<lparr>promiseId = 0, valueType = Nakama_Api_Rpc\<rparr> (Succeed ''result'')]"
  by code_simp

end
